theory Spec2Isabelle
  imports Main "HOL-Library.Word" "HOL-Library.Multiset"
begin

section \<open>The transparent price cache of cache.go\<close>

subsection \<open>Data model\<close>

text \<open>
  A price is a Go \<open>float64\<close>. The code never computes with prices: it stores them,
  hands them on and writes the literal \<open>0\<close>. They are carried as their 64-bit IEEE-754
  pattern, in which the literal \<open>0\<close> is the word \<open>0\<close>.
\<close>

type_synonym float64 = "64 word"

text \<open>
  \<open>time.Duration\<close> is an \<open>int64\<close> count of nanoseconds (a 64-bit word read by \<open>sint\<close>). A \<open>time.Time\<close> is an
  instant, taken here as an integer count of nanoseconds since Go's zero \<open>Time\<close>, on an
  unbounded time line (the range limits of the time package are left out).
  A Go \<open>error\<close> is \<open>nil\<close> (\<open>None\<close>) or carries the text of its \<open>Error()\<close> method.
\<close>

type_synonym Duration = "64 word"
type_synonym Time = int
type_synonym error = "string option"

text \<open>
  The interface \<open>PriceService\<close>: one operation \<open>GetPriceFor(itemCode)\<close> returning a
  pair \<open>(float64, error)\<close>. An implementation may keep state of its own (type \<open>'s\<close>),
  so a call takes the service's state and returns the new one.
\<close>

type_synonym 's PriceService = "string \<Rightarrow> 's \<Rightarrow> (float64 \<times> error) \<times> 's"

text \<open>
  The struct \<open>TransparentCache\<close>. The embedded \<open>sync.Mutex\<close> has no field here: the
  section between \<open>c.Lock()\<close> and the deferred \<open>c.Unlock()\<close> is one step of the model
  (\<open>storePrice\<close> below).
\<close>

record 's TransparentCache =
  actualPriceService :: "'s PriceService"
  maxAge :: Duration
  prices :: "string \<rightharpoonup> float64"
  expirationByItem :: "string \<rightharpoonup> Time"

text \<open>
  What a call runs in: the cache it is called on, the state of the upstream service,
  the list of the item codes the upstream service has been asked for so far (oldest
  first; a record of the calls, not a variable of the program), and the clock. The
  clock is the sequence \<open>nows\<close> of the values that successive calls of \<open>time.Now()\<close>
  return, with the number \<open>reads\<close> of calls made so far.
\<close>

record 's world =
  cache :: "'s TransparentCache"
  upstream :: 's
  upstreamCalls :: "string list"
  nows :: "nat \<Rightarrow> Time"
  reads :: nat

subsection \<open>The time package, as far as the code uses it\<close>

definition Add :: "Time \<Rightarrow> Duration \<Rightarrow> Time" where
  "Add t d = t + sint d"

definition After :: "Time \<Rightarrow> Time \<Rightarrow> bool" where
  "After t u = (u < t)"

definition zeroTime :: Time where
  "zeroTime = 0"

definition timeNow :: "'s world \<Rightarrow> Time \<times> 's world" where
  "timeNow w = (nows w (reads w), w\<lparr>reads := reads w + 1\<rparr>)"

subsection \<open>NewTransparentCache and GetPriceFor\<close>

definition NewTransparentCache :: "'s PriceService \<Rightarrow> Duration \<Rightarrow> 's TransparentCache" where
  "NewTransparentCache svc age =
     \<lparr>actualPriceService = svc, maxAge = age, prices = Map.empty, expirationByItem = Map.empty\<rparr>"

text \<open>
  Lines 38 to 43 of cache.go: the read of the cache. The result is the cached price when
  the entry is there and still fresh, \<open>None\<close> when the call has to go on to the service.
  \<open>time.Now()\<close> is only called when the price map has the key. Reading a missing key of
  \<open>expirationByItem\<close> gives the zero \<open>Time\<close>.
\<close>

definition cachedPrice :: "string \<Rightarrow> 's world \<Rightarrow> float64 option \<times> 's world" where
  "cachedPrice itemCode w =
     (case prices (cache w) itemCode of
        None \<Rightarrow> (None, w)
      | Some price \<Rightarrow>
          (let stored = (case expirationByItem (cache w) itemCode of
                           None \<Rightarrow> zeroTime | Some t \<Rightarrow> t);
               (now, w') = timeNow w
           in if After (Add stored (maxAge (cache w))) now
              then (Some price, w') else (None, w')))"

text \<open>
  Lines 44 to 47: the call of the upstream service, and the error that \<open>fmt.Errorf\<close>
  builds from the text of the service's error when it fails.
\<close>

definition fetchPrice :: "string \<Rightarrow> 's world \<Rightarrow> (float64 \<times> error) \<times> 's world" where
  "fetchPrice itemCode w =
     (let ((price, err), s') = actualPriceService (cache w) itemCode (upstream w);
          w' = w\<lparr>upstream := s', upstreamCalls := upstreamCalls w @ [itemCode]\<rparr>
      in case err of
           Some msg \<Rightarrow> ((0, Some (''getting price from service : '' @ msg)), w')
         | None \<Rightarrow> ((price, None), w'))"

text \<open>Lines 48 to 52: the write of both maps, under the lock.\<close>

definition storePrice :: "string \<Rightarrow> float64 \<Rightarrow> 's world \<Rightarrow> 's world" where
  "storePrice itemCode price w =
     (let (now, w') = timeNow w
      in w'\<lparr>cache := (cache w')
              \<lparr>prices := (prices (cache w'))(itemCode \<mapsto> price),
               expirationByItem := (expirationByItem (cache w'))(itemCode \<mapsto> now)\<rparr>\<rparr>)"

definition GetPriceFor :: "string \<Rightarrow> 's world \<Rightarrow> (float64 \<times> error) \<times> 's world" where
  "GetPriceFor itemCode w =
     (case cachedPrice itemCode w of
        (Some price, w1) \<Rightarrow> ((price, None), w1)
      | (None, w1) \<Rightarrow>
          (case fetchPrice itemCode w1 of
             ((price, Some e), w2) \<Rightarrow> ((0, Some e), w2)
           | ((price, None), w2) \<Rightarrow> ((price, None), storePrice itemCode price w2)))"

section \<open>GetPricesFor: the coordinator, the collector and the workers\<close>

text \<open>
  GetPricesFor runs several goroutines: the caller itself (the coordinator, lines 57 to
  76), one collector \<open>handleResults\<close> (lines 79 to 86) and one worker
  \<open>getConcurrentPrice\<close> per item code (lines 89 to 93). They meet on three unbuffered
  channels and one \<open>sync.WaitGroup\<close>. The model is an interleaving semantics: a state
  holds the program point and the local variables of every goroutine, and a step is one
  action of one goroutine, or one communication on an unbuffered channel, in which the
  sender and the receiver move together.
\<close>

subsection \<open>Program points\<close>

text \<open>
  The coordinator: in the \<open>range\<close> loop of line 65, at \<open>w.Wait()\<close>, at \<open>close(input)\<close>,
  at \<open>err := <-errOutput\<close>, at the test of \<open>err\<close>, at \<open><-output\<close> of the return
  statement, and returned.
\<close>

datatype mpc = M_loop | M_wait | M_close_input | M_recv_err | M_check_err | M_recv_output | M_returned

text \<open>
  The collector: at the receive of \<open>range input\<close>, at \<open>wg.Done()\<close> (the value is already
  appended), at \<open>output <- results\<close>, and finished.
\<close>

datatype hpc = H_range | H_done | H_send | H_exit

text \<open>
  A worker: inside its call of GetPriceFor at the read of the cache, at the call of the
  service, at the write under the lock; then at \<open>input <- price\<close>, at
  \<open>errOutput <- err\<close>, and finished.
\<close>

datatype wpc = W_lookup | W_fetch | W_store | W_send_input | W_send_err | W_exit

record worker =
  w_pc :: wpc
  w_itemCode :: string
  w_price :: float64
  w_err :: error

text \<open>
  The state of one call of GetPricesFor: the world the cache lives in, the coordinator's
  program point, its variable \<open>err\<close> and the slice it returns, the collector's program
  point and its slice \<open>results\<close>, the workers in the order they were started, the counter
  of the WaitGroup, which channels are closed, and the panic that stopped the program,
  if any.
\<close>

record 's state =
  world :: "'s world"
  m_pc :: mpc
  m_err :: error
  m_ret :: "float64 list"
  h_pc :: hpc
  results :: "float64 list"
  workers :: "worker list"
  wg :: nat
  inputClosed :: bool
  errOutputClosed :: bool
  outputClosed :: bool
  panic :: "string option"

text \<open>
  The state after line 64: the channels are made, none is closed, the collector is
  started and no worker is yet.
\<close>

definition start :: "'s world \<Rightarrow> 's state" where
  "start w =
     \<lparr>world = w, m_pc = M_loop, m_err = None, m_ret = [], h_pc = H_range, results = [],
      workers = [], wg = 0, inputClosed = False, errOutputClosed = False,
      outputClosed = False, panic = None\<rparr>"

subsection \<open>Steps\<close>

text \<open>
  \<open>Main\<close>, \<open>Handler\<close> and \<open>Worker i\<close> are the steps a goroutine takes alone; \<open>SendInput i\<close>
  and \<open>SendErr i\<close> are worker \<open>i\<close>'s sends on \<open>input\<close> and \<open>errOutput\<close> meeting their
  receiver, \<open>SendOutput\<close> the collector's send on \<open>output\<close> meeting the coordinator.
\<close>

datatype action = Main | Handler | Worker nat | SendInput nat | SendErr nat | SendOutput

text \<open>
  The coordinator alone. One turn of the loop is \<open>w.Add(1)\<close> and the \<open>go\<close> statement;
  when the item codes are used up the loop ends. \<open>w.Wait()\<close> returns when the counter is
  zero. A receive on a closed channel returns the zero value at once (\<open>output\<close> is
  closed by the coordinator's own deferred call only, after its receive). The two
  receives on open channels are communications, not steps of the coordinator alone.
\<close>

definition main_step :: "string list \<Rightarrow> 's state \<Rightarrow> 's state option" where
  "main_step itemCodes st =
     (case m_pc st of
        M_loop \<Rightarrow>
          (let n = length (workers st)
           in if n < length itemCodes
              then Some (st\<lparr>wg := wg st + 1,
                             workers := workers st @
                               [\<lparr>w_pc = W_lookup, w_itemCode = itemCodes ! n,
                                 w_price = 0, w_err = None\<rparr>]\<rparr>)
              else Some (st\<lparr>m_pc := M_wait\<rparr>))
      | M_wait \<Rightarrow> if wg st = 0 then Some (st\<lparr>m_pc := M_close_input\<rparr>) else None
      | M_close_input \<Rightarrow>
          if inputClosed st then Some (st\<lparr>panic := Some ''close of closed channel''\<rparr>)
          else Some (st\<lparr>inputClosed := True, m_pc := M_recv_err\<rparr>)
      | M_recv_err \<Rightarrow>
          if errOutputClosed st then Some (st\<lparr>m_err := None, m_pc := M_check_err\<rparr>) else None
      | M_check_err \<Rightarrow>
          (case m_err st of
             None \<Rightarrow> Some (st\<lparr>m_pc := M_recv_output\<rparr>)
           | Some e \<Rightarrow>
               if errOutputClosed st then Some (st\<lparr>panic := Some ''close of closed channel''\<rparr>)
               else Some (st\<lparr>errOutputClosed := True, m_pc := M_recv_output\<rparr>))
      | M_recv_output \<Rightarrow> None
      | M_returned \<Rightarrow> None)"

text \<open>
  The collector alone: the \<open>range\<close> loop ends when \<open>input\<close> is closed; \<open>wg.Done()\<close>
  panics when the counter would go below zero; a send on a closed channel panics.
\<close>

definition handler_step :: "'s state \<Rightarrow> 's state option" where
  "handler_step st =
     (case h_pc st of
        H_range \<Rightarrow> if inputClosed st then Some (st\<lparr>h_pc := H_send\<rparr>) else None
      | H_done \<Rightarrow>
          if wg st = 0 then Some (st\<lparr>panic := Some ''sync: negative WaitGroup counter''\<rparr>)
          else Some (st\<lparr>wg := wg st - 1, h_pc := H_range\<rparr>)
      | H_send \<Rightarrow>
          if outputClosed st then Some (st\<lparr>panic := Some ''send on closed channel''\<rparr>) else None
      | H_exit \<Rightarrow> None)"

text \<open>
  Worker \<open>i\<close> alone: the three parts of its call of GetPriceFor, and the panic of a send
  on a closed channel.
\<close>

definition worker_step :: "nat \<Rightarrow> 's state \<Rightarrow> 's state option" where
  "worker_step i st =
     (if i < length (workers st) then
        (let wk = workers st ! i in
         case w_pc wk of
           W_lookup \<Rightarrow>
             (case cachedPrice (w_itemCode wk) (world st) of
                (Some price, w') \<Rightarrow>
                  Some (st\<lparr>world := w',
                           workers := (workers st)
                             [i := wk\<lparr>w_pc := W_send_input, w_price := price, w_err := None\<rparr>]\<rparr>)
              | (None, w') \<Rightarrow>
                  Some (st\<lparr>world := w', workers := (workers st)[i := wk\<lparr>w_pc := W_fetch\<rparr>]\<rparr>))
         | W_fetch \<Rightarrow>
             (case fetchPrice (w_itemCode wk) (world st) of
                ((price, Some e), w') \<Rightarrow>
                  Some (st\<lparr>world := w',
                           workers := (workers st)
                             [i := wk\<lparr>w_pc := W_send_input, w_price := 0, w_err := Some e\<rparr>]\<rparr>)
              | ((price, None), w') \<Rightarrow>
                  Some (st\<lparr>world := w',
                           workers := (workers st)[i := wk\<lparr>w_pc := W_store, w_price := price\<rparr>]\<rparr>))
         | W_store \<Rightarrow>
             Some (st\<lparr>world := storePrice (w_itemCode wk) (w_price wk) (world st),
                      workers := (workers st)[i := wk\<lparr>w_pc := W_send_input, w_err := None\<rparr>]\<rparr>)
         | W_send_input \<Rightarrow>
             if inputClosed st then Some (st\<lparr>panic := Some ''send on closed channel''\<rparr>) else None
         | W_send_err \<Rightarrow>
             if errOutputClosed st then Some (st\<lparr>panic := Some ''send on closed channel''\<rparr>)
             else None
         | W_exit \<Rightarrow> None)
      else None)"

text \<open>
  Worker \<open>i\<close>'s \<open>input <- price\<close> meets the collector's receive: the collector appends
  the price and goes on to \<open>wg.Done()\<close>.
\<close>

definition send_input :: "nat \<Rightarrow> 's state \<Rightarrow> 's state option" where
  "send_input i st =
     (if i < length (workers st) \<and> w_pc (workers st ! i) = W_send_input \<and>
         h_pc st = H_range \<and> \<not> inputClosed st
      then Some (st\<lparr>results := results st @ [w_price (workers st ! i)], h_pc := H_done,
                    workers := (workers st)[i := (workers st ! i)\<lparr>w_pc := W_send_err\<rparr>]\<rparr>)
      else None)"

text \<open>Worker \<open>i\<close>'s \<open>errOutput <- err\<close> meets the coordinator's \<open>err := <-errOutput\<close>.\<close>

definition send_err :: "nat \<Rightarrow> 's state \<Rightarrow> 's state option" where
  "send_err i st =
     (if i < length (workers st) \<and> w_pc (workers st ! i) = W_send_err \<and>
         m_pc st = M_recv_err \<and> \<not> errOutputClosed st
      then Some (st\<lparr>m_err := w_err (workers st ! i), m_pc := M_check_err,
                    workers := (workers st)[i := (workers st ! i)\<lparr>w_pc := W_exit\<rparr>]\<rparr>)
      else None)"

text \<open>
  The collector's \<open>output <- results\<close> meets the coordinator's \<open><-output\<close>; the
  coordinator returns and its deferred \<open>close(output)\<close> runs.
\<close>

definition send_output :: "'s state \<Rightarrow> 's state option" where
  "send_output st =
     (if h_pc st = H_send \<and> m_pc st = M_recv_output \<and> \<not> outputClosed st
      then Some (st\<lparr>m_ret := results st, m_pc := M_returned, h_pc := H_exit,
                    outputClosed := True\<rparr>)
      else None)"

text \<open>A panic in any goroutine ends the program: no step follows it.\<close>

definition step :: "string list \<Rightarrow> action \<Rightarrow> 's state \<Rightarrow> 's state option" where
  "step itemCodes a st =
     (case panic st of
        Some msg \<Rightarrow> None
      | None \<Rightarrow>
          (case a of
             Main \<Rightarrow> main_step itemCodes st
           | Handler \<Rightarrow> handler_step st
           | Worker i \<Rightarrow> worker_step i st
           | SendInput i \<Rightarrow> send_input i st
           | SendErr i \<Rightarrow> send_err i st
           | SendOutput \<Rightarrow> send_output st))"

text \<open>
  An execution is a schedule, the list of the actions taken in order; \<open>run\<close> is \<open>None\<close>
  when the schedule asks for an action that cannot be taken at that point.
\<close>

fun run :: "string list \<Rightarrow> action list \<Rightarrow> 's state \<Rightarrow> 's state option" where
  "run itemCodes [] st = Some st"
| "run itemCodes (a # as) st =
     (case step itemCodes a st of None \<Rightarrow> None | Some st' \<Rightarrow> run itemCodes as st')"

text \<open>The actions that can be taken in a state; the program is stuck when there is none.\<close>

definition can :: "string list \<Rightarrow> 's state \<Rightarrow> action \<Rightarrow> bool" where
  "can itemCodes st a = (case step itemCodes a st of None \<Rightarrow> False | Some st' \<Rightarrow> True)"

definition enabled :: "string list \<Rightarrow> 's state \<Rightarrow> action list" where
  "enabled itemCodes st =
     filter (can itemCodes st)
       ([Main, Handler, SendOutput] @ map Worker [0..<length (workers st)] @
        map SendInput [0..<length (workers st)] @ map SendErr [0..<length (workers st)])"

section \<open>The invariant of the two maps, and a scenario\<close>

text \<open>The price map and the time-stamp map have the same keys.\<close>

definition consistent :: "'s TransparentCache \<Rightarrow> bool" where
  "consistent c = (dom (prices c) = dom (expirationByItem c))"

text \<open>
  A service for the examples below. Its state counts the calls made to it. It fails for
  the item code \<open>B\<close>; for any other code its first call returns the price 10.0 and the
  later ones 20.0 (\<open>0x4024000000000000\<close> and \<open>0x4034000000000000\<close> as float64).
\<close>

definition demoService :: "nat PriceService" where
  "demoService itemCode n =
     (if itemCode = ''B'' then ((0, Some ''no price''), n + 1)
      else ((if n = 0 then 0x4024000000000000 else 0x4034000000000000, None), n + 1))"

text \<open>
  A new cache over that service with a \<open>maxAge\<close> of one minute, and a clock whose
  \<open>n\<close>-th reading is \<open>n\<close> seconds.
\<close>

definition demoWorld :: "nat world" where
  "demoWorld =
     \<lparr>cache = NewTransparentCache demoService 60000000000, upstream = 0,
      upstreamCalls = [], nows = (\<lambda>n. 1000000000 * int n), reads = 0\<rparr>"

text \<open>The same world once the price of \<open>A\<close> has been fetched and stored at time 0.\<close>

definition warmWorld :: "nat world" where
  "warmWorld =
     \<lparr>cache = \<lparr>actualPriceService = demoService, maxAge = 60000000000,
               prices = [''A'' \<mapsto> 0x4024000000000000],
               expirationByItem = [''A'' \<mapsto> 0]\<rparr>,
      upstream = 1, upstreamCalls = [''A''], nows = (\<lambda>n. 1000000000 * int n), reads = 1\<rparr>"

section \<open>Properties of GetPriceFor\<close>

text \<open>
  C3 (freshness). If the cache holds the value \<open>v\<close> for the key, stored at time \<open>T\<close>, and
  GetPriceFor is called at a time \<open>T'\<close> (the reading of the clock the call takes) that is
  strictly before \<open>T + maxAge\<close>, then the call returns \<open>v\<close> with a nil error, the upstream
  service is not called (its state and the record of its calls are as before), and the
  cache is unchanged: only the clock has been read once.
\<close>

theorem GetPriceFor_fresh:
  assumes "prices (cache w) key = Some v"
    and "expirationByItem (cache w) key = Some T"
    and "nows w (reads w) = T'"
    and "T' < T + sint (maxAge (cache w))"
  shows "GetPriceFor key w = ((v, None), w\<lparr>reads := reads w + 1\<rparr>)"
  using assms
  by (simp add: GetPriceFor_def cachedPrice_def timeNow_def After_def Add_def)

theorem GetPriceFor_fresh_witness:
  "prices (cache warmWorld) ''A'' = Some 0x4024000000000000 \<and>
   expirationByItem (cache warmWorld) ''A'' = Some 0 \<and>
   nows warmWorld (reads warmWorld) = 1000000000 \<and>
   (1000000000 :: int) < 0 + sint (maxAge (cache warmWorld)) \<and>
   GetPriceFor ''A'' warmWorld =
     ((0x4024000000000000, None), warmWorld\<lparr>reads := reads warmWorld + 1\<rparr>)"
proof -
  have a: "prices (cache warmWorld) ''A'' = Some 0x4024000000000000"
    by (simp add: warmWorld_def)
  have b: "expirationByItem (cache warmWorld) ''A'' = Some 0"
    by (simp add: warmWorld_def)
  have c: "nows warmWorld (reads warmWorld) = 1000000000"
    by (simp add: warmWorld_def)
  have d: "(1000000000 :: int) < 0 + sint (maxAge (cache warmWorld))"
    by (simp add: warmWorld_def)
  from GetPriceFor_fresh [OF a b c d] a b c d show ?thesis by simp
qed

text \<open>
  C4 (expiry). If the price map has no entry for the key, or the entry was stored at time
  \<open>T\<close> and the call's reading of the clock is at or after \<open>T + maxAge\<close>, and the upstream
  service answers the key with the price \<open>p\<close> and no error, then the call asks the
  upstream service exactly once (the record of the calls grows by this key), returns \<open>p\<close>
  with a nil error, and writes \<open>p\<close> and the time read at the write into the two maps.
  The clock reading \<open>r\<close> of the write is the one after the freshness check, which reads
  the clock only when the price map has the key.
\<close>

theorem GetPriceFor_expired:
  assumes "prices (cache w) key = None \<or>
           (expirationByItem (cache w) key = Some T \<and>
            T + sint (maxAge (cache w)) \<le> nows w (reads w))"
    and "actualPriceService (cache w) key (upstream w) = ((p, None), s')"
    and "r = (if prices (cache w) key = None then reads w else reads w + 1)"
  shows "GetPriceFor key w =
           ((p, None),
            w\<lparr>cache := (cache w)
                 \<lparr>prices := (prices (cache w))(key \<mapsto> p),
                  expirationByItem := (expirationByItem (cache w))(key \<mapsto> nows w r)\<rparr>,
              upstream := s', upstreamCalls := upstreamCalls w @ [key], reads := r + 1\<rparr>)"
  using assms
  by (auto simp add: GetPriceFor_def cachedPrice_def fetchPrice_def storePrice_def
      timeNow_def After_def Add_def split: option.splits)

theorem GetPriceFor_expired_witness:
  "prices (cache demoWorld) ''A'' = None \<and>
   actualPriceService (cache demoWorld) ''A'' (upstream demoWorld) =
     ((0x4024000000000000, None), 1) \<and>
   GetPriceFor ''A'' demoWorld = ((0x4024000000000000, None), warmWorld)"
proof -
  have a: "prices (cache demoWorld) ''A'' = None"
    by (simp add: demoWorld_def NewTransparentCache_def)
  have b: "actualPriceService (cache demoWorld) ''A'' (upstream demoWorld) =
             ((0x4024000000000000, None), 1)"
    by (simp add: demoWorld_def NewTransparentCache_def demoService_def)
  have c: "reads demoWorld = (if prices (cache demoWorld) ''A'' = None
                              then reads demoWorld else reads demoWorld + 1)"
    using a by simp
  from GetPriceFor_expired [OF disjI1 [OF a] b c] a b show ?thesis
    by (simp add: demoWorld_def warmWorld_def NewTransparentCache_def)
qed

text \<open>
  C5 (failure of the upstream service). If the entry of the key is missing or expired, so
  that the upstream service is asked, and the service answers with the error text
  \<open>msg\<close>, then the call returns the price 0 and a non-nil error whose text names the
  service as the origin and ends with \<open>msg\<close>, and both maps of the cache are as before.
\<close>

theorem GetPriceFor_upstream_failure:
  assumes "prices (cache w) key = None \<or>
           (expirationByItem (cache w) key = Some T \<and>
            T + sint (maxAge (cache w)) \<le> nows w (reads w))"
    and "actualPriceService (cache w) key (upstream w) = ((p, Some msg), s')"
    and "GetPriceFor key w = ((price, err), w')"
  shows "price = 0 \<and> err = Some (''getting price from service : '' @ msg) \<and>
         prices (cache w') = prices (cache w) \<and>
         expirationByItem (cache w') = expirationByItem (cache w) \<and>
         cache w' = cache w"
  using assms
  by (auto simp add: GetPriceFor_def cachedPrice_def fetchPrice_def
      timeNow_def After_def Add_def split: option.splits)

theorem GetPriceFor_upstream_failure_witness:
  "prices (cache demoWorld) ''B'' = None \<and>
   actualPriceService (cache demoWorld) ''B'' (upstream demoWorld) = ((0, Some ''no price''), 1) \<and>
   GetPriceFor ''B'' demoWorld =
     ((0, Some ''getting price from service : no price''),
      demoWorld\<lparr>upstream := 1, upstreamCalls := [''B'']\<rparr>) \<and>
   cache (demoWorld\<lparr>upstream := 1, upstreamCalls := [''B'']\<rparr>) = cache demoWorld"
proof -
  have a: "prices (cache demoWorld) ''B'' = None"
    by (simp add: demoWorld_def NewTransparentCache_def)
  have b: "actualPriceService (cache demoWorld) ''B'' (upstream demoWorld) =
             ((0, Some ''no price''), 1)"
    by (simp add: demoWorld_def NewTransparentCache_def demoService_def)
  have c: "GetPriceFor ''B'' demoWorld =
     ((0, Some ''getting price from service : no price''),
      demoWorld\<lparr>upstream := 1, upstreamCalls := [''B'']\<rparr>)"
    by (simp add: GetPriceFor_def cachedPrice_def fetchPrice_def demoWorld_def
        NewTransparentCache_def demoService_def)
  from GetPriceFor_upstream_failure [OF disjI1 [OF a] b c] a b c show ?thesis by simp
qed

end
